theory Spec2Isabelle
  imports Complex_Main "HOL-Library.Sublist" "HOL-Library.Extended_Nat"
begin

section \<open>Calendar synchronisation of the rental API (services/calendarSyncService)\<close>

text \<open>
  The development embeds the class \<open>CalendarSyncService\<close>: the iCal download and parse
  steps, the guest-information heuristics, the per-event reconciliation against the
  bookings table and the two per-property entry points.

  Conventions of the embedding.
  \<^item> A JavaScript string is a \<open>string\<close>; its characters are the 8-bit characters of HOL.
    On these, \<open>toLowerCase\<close>, the class \<open>\s\<close>, \<open>trim\<close> and the \<open>i\<close> flag behave as
    defined below (only the letters A to Z matter for the comparisons the code makes; the
    one non-ASCII white-space character in range is U+00A0).
  \<^item> A \<open>Date\<close> is its time value, an \<open>int\<close> of milliseconds since the epoch; the
    division inside \<open>Math.ceil\<close> is exact ceiling division (the source divides in
    double precision, which decides \<open>nights <= 0\<close> the same way).
  \<^item> A guest count is a JavaScript number that is a natural number or \<open>Infinity\<close>, an
    \<open>enat\<close>; \<open>parseInt\<close> rounds to the nearest double as the source does.
  \<^item> \<open>undefined\<close> and \<open>null\<close> are \<open>None\<close>. A JavaScript truthiness test on a string is
    \<open>truthy\<close>: absent and empty strings are falsy.
  \<^item> The Prisma client is an explicit store: two tables as lists of rows, searched and
    rewritten by functions that follow each SQL statement.
  \<^item> The libraries axios and node-ical and the two clocks (\<open>new Date()\<close> of the process,
    \<open>NOW()\<close> of the database) are parameters, and so is the failure of a call of
    \<open>processCalendarEvent\<close>: whether it raises an exception (a statement on the bookings
    table is rejected, or \<open>extractGuestInfo\<close> meets a summary that is not the string the
    interface declares) is decided by the environment, and the per-event \<open>catch\<close> of the
    sync loop handles it. The statements on the properties table are taken to succeed.
\<close>

subsection \<open>Strings\<close>

definition upperLetters :: string where
  "upperLetters = ''ABCDEFGHIJKLMNOPQRSTUVWXYZ''"

definition lowerLetters :: string where
  "lowerLetters = ''abcdefghijklmnopqrstuvwxyz''"

definition toLower :: "char \<Rightarrow> char" where
  "toLower c = (case map_of (zip upperLetters lowerLetters) c of Some d \<Rightarrow> d | None \<Rightarrow> c)"

text \<open>\<open>s.toLowerCase()\<close>\<close>

definition toLowerCase :: "string \<Rightarrow> string" where
  "toLowerCase s = map toLower s"

text \<open>\<open>s.includes(k)\<close>: \<open>k\<close> occurs in \<open>s\<close> as a contiguous run.\<close>

definition strIncludes :: "string \<Rightarrow> string \<Rightarrow> bool" where
  "strIncludes s k = sublist k s"

definition isAlpha :: "char \<Rightarrow> bool" where
  "isAlpha c = (c \<in> set (upperLetters @ lowerLetters))"

definition isDigit :: "char \<Rightarrow> bool" where
  "isDigit c = (c \<in> set ''0123456789'')"

text \<open>The class \<open>\s\<close>: tab, line feed, vertical tab, form feed, carriage return, space, U+00A0.\<close>

definition isSpace :: "char \<Rightarrow> bool" where
  "isSpace c = (c \<in> set [CHR 0x09, CHR 0x0A, CHR 0x0B, CHR 0x0C, CHR 0x0D, CHR 0x20, CHR 0xA0])"

text \<open>\<open>s.trim()\<close> strips the same characters from both ends.\<close>

definition trim :: "string \<Rightarrow> string" where
  "trim s = rev (dropWhile isSpace (rev (dropWhile isSpace s)))"

definition startsWith :: "string \<Rightarrow> string \<Rightarrow> bool" where
  "startsWith s k = (take (length k) s = k)"

text \<open>A truthiness test on an optional string.\<close>

fun truthy :: "string option \<Rightarrow> bool" where
  "truthy None = False"
| "truthy (Some s) = (s \<noteq> [])"

text \<open>\<open>x || d\<close> on an optional string.\<close>

fun orElse :: "string option \<Rightarrow> string \<Rightarrow> string" where
  "orElse None d = d"
| "orElse (Some s) d = (if s = [] then d else s)"

text \<open>\<open>x || null\<close> and \<open>x || undefined\<close> on an optional string.\<close>

fun orNull :: "string option \<Rightarrow> string option" where
  "orNull None = None"
| "orNull (Some s) = (if s = [] then None else Some s)"

definition digitVal :: "char \<Rightarrow> nat" where
  "digitVal c = (case map_of (zip ''0123456789'' [0, 1, 2, 3, 4, 5, 6, 7, 8, 9]) c of Some d \<Rightarrow> d | None \<Rightarrow> 0)"

text \<open>The number a run of decimal digits denotes.\<close>

definition digitsValue :: "string \<Rightarrow> nat" where
  "digitsValue ds = foldl (\<lambda>acc c. 10 * acc + digitVal c) 0 ds"

text \<open>The number of binary digits of a number.\<close>

fun bitLength :: "nat \<Rightarrow> nat" where
  "bitLength n = (if n = 0 then 0 else Suc (bitLength (n div 2)))"

declare bitLength.simps [simp del]

text \<open>
  The double nearest to a natural number: the number itself below \<open>2^53\<close>; above, the
  53 leading binary digits, rounded to nearest with ties to the even one; \<open>Infinity\<close>
  when the rounded number reaches \<open>2^1024\<close>.
\<close>

definition toDouble :: "nat \<Rightarrow> enat" where
  "toDouble n =
     (if n < 2 ^ 53 then enat n
      else let e = bitLength n - 53;
               q = n div 2 ^ e;
               r = n mod 2 ^ e;
               m = (if 2 ^ e < 2 * r \<or> (2 * r = 2 ^ e \<and> odd q) then q + 1 else q) * 2 ^ e
           in if m < 2 ^ 1024 then enat m else \<infinity>)"

text \<open>\<open>parseInt(ds, 10)\<close> on a run of decimal digits: the number they denote, as a double.\<close>

definition parseInt :: "string \<Rightarrow> enat" where
  "parseInt ds = toDouble (digitsValue ds)"

text \<open>A number inside a template literal: its decimal digits.\<close>

fun showNat :: "nat \<Rightarrow> string" where
  "showNat n = (if n < 10 then [''0123456789'' ! n]
                else showNat (n div 10) @ [''0123456789'' ! (n mod 10)])"

subsection \<open>The regular expressions of \<open>extractGuestInfo\<close>\<close>

text \<open>
  Each expression is written out as the search the backtracking matcher performs.

  \<open>/^([A-Za-z\s]{2,50})(?:\s*-|\s*\(|$)/\<close>: anchored at the start. The group is greedy:
  it first takes the longest run of letters and white space, at most 50 characters, and
  gives characters back one at a time, down to 2, until the rest continues with optional
  white space and a dash, optional white space and an opening parenthesis, or the end of
  the input. The result is the text of the group.
\<close>

definition isNameChar :: "char \<Rightarrow> bool" where
  "isNameChar c = (isAlpha c \<or> isSpace c)"

definition nameTail :: "string \<Rightarrow> bool" where
  "nameTail r = (startsWith (dropWhile isSpace r) ''-'' \<or> startsWith (dropWhile isSpace r) ''('' \<or> r = [])"

fun nameTry :: "nat \<Rightarrow> string \<Rightarrow> string option" where
  "nameTry 0 s = None"
| "nameTry (Suc n) s =
     (if Suc n < 2 then None
      else if nameTail (drop (Suc n) s) then Some (take (Suc n) s)
      else nameTry n s)"

definition nameMatch :: "string \<Rightarrow> string option" where
  "nameMatch s = nameTry (min 50 (length (takeWhile isNameChar s))) s"

text \<open>
  \<open>/(\d+)\s*guests?/i\<close>: a search for the leftmost position where a run of digits, then
  optional white space, then the letters of "guest" in either case follow. The digits
  are greedy and no shorter run can match, since the character after a shorter run is a
  digit. The result is the text of the group, the digits.
\<close>

definition guestAt :: "string \<Rightarrow> string option" where
  "guestAt s =
     (let ds = takeWhile isDigit s;
          r = dropWhile isSpace (dropWhile isDigit s)
      in if ds \<noteq> [] \<and> toLowerCase (take 5 r) = ''guest'' then Some ds else None)"

fun guestMatch :: "string \<Rightarrow> string option" where
  "guestMatch [] = None"
| "guestMatch (c # cs) =
     (case guestAt (c # cs) of Some ds \<Rightarrow> Some ds | None \<Rightarrow> guestMatch cs)"

text \<open>
  \<open>/([a-zA-Z0-9._%+-]+@[a-zA-Z0-9.-]+\.[a-zA-Z]{2,})/\<close>: a search for the leftmost
  position where a run of local-part characters is followed by \<open>@\<close>. The domain run is
  greedy and gives characters back until a dot and at least two letters follow; the
  letters are then taken greedily. The result is the whole match.
\<close>

definition isLocalChar :: "char \<Rightarrow> bool" where
  "isLocalChar c = (isAlpha c \<or> isDigit c \<or> c \<in> set ''._%+-'')"

definition isDomainChar :: "char \<Rightarrow> bool" where
  "isDomainChar c = (isAlpha c \<or> isDigit c \<or> c \<in> set ''.-'')"

fun emailDomain :: "nat \<Rightarrow> string \<Rightarrow> string option" where
  "emailDomain 0 r = None"
| "emailDomain (Suc k) r =
     (let tld = takeWhile isAlpha (drop (Suc (Suc k)) r)
      in if startsWith (drop (Suc k) r) ''.'' \<and> 2 \<le> length tld
         then Some (take (Suc k) r @ ''.'' @ tld)
         else emailDomain k r)"

definition emailAt :: "string \<Rightarrow> string option" where
  "emailAt s =
     (let loc = takeWhile isLocalChar s; r = dropWhile isLocalChar s
      in if loc \<noteq> [] \<and> startsWith r ''@''
         then (case emailDomain (length (takeWhile isDomainChar (drop 1 r))) (drop 1 r) of
                 Some d \<Rightarrow> Some (loc @ ''@'' @ d)
               | None \<Rightarrow> None)
         else None)"

fun emailMatch :: "string \<Rightarrow> string option" where
  "emailMatch [] = None"
| "emailMatch (c # cs) =
     (case emailAt (c # cs) of Some m \<Rightarrow> Some m | None \<Rightarrow> emailMatch cs)"

text \<open>
  \<open>/(?:phone|tel|mobile):\s*([+\d\s\-\(\)]+)/i\<close>: a search for the leftmost position
  where one of the three labels in either case and a colon are followed by optional
  white space and at least one character of the group's class. White space belongs to
  that class: when nothing of the class follows the white space, the matcher gives the
  last white-space character back to the group. The result is the text of the group.
\<close>

definition isPhoneChar :: "char \<Rightarrow> bool" where
  "isPhoneChar c = (isDigit c \<or> isSpace c \<or> c \<in> set ''+-()'')"

definition phoneLabel :: "string \<Rightarrow> string option" where
  "phoneLabel s =
     (if toLowerCase (take 6 s) = ''phone:'' then Some (drop 6 s)
      else if toLowerCase (take 4 s) = ''tel:'' then Some (drop 4 s)
      else if toLowerCase (take 7 s) = ''mobile:'' then Some (drop 7 s)
      else None)"

definition phoneAt :: "string \<Rightarrow> string option" where
  "phoneAt s =
     (case phoneLabel s of
        None \<Rightarrow> None
      | Some r \<Rightarrow>
          (let w = takeWhile isSpace r; g = takeWhile isPhoneChar (dropWhile isSpace r)
           in if g \<noteq> [] then Some g
              else if w \<noteq> [] then Some [last w]
              else None))"

fun phoneMatch :: "string \<Rightarrow> string option" where
  "phoneMatch [] = None"
| "phoneMatch (c # cs) =
     (case phoneAt (c # cs) of Some g \<Rightarrow> Some g | None \<Rightarrow> phoneMatch cs)"

subsection \<open>Events and guest information\<close>

type_synonym date = int

record CalendarEvent =
  uid :: string
  summary :: string
  description :: "string option"
  start :: date
  "end" :: date
  location :: "string option"
  organizer :: "string option"

record GuestInfo =
  name :: string
  email :: "string option"
  phone :: "string option"
  guests :: enat
  isPlaceholder :: bool

text \<open>The condition of the first branch of \<open>extractGuestInfo\<close>, on a non-empty summary.\<close>

definition closureSummary :: "string \<Rightarrow> bool" where
  "closureSummary s =
     (strIncludes (toLowerCase s) ''closed'' \<or>
      strIncludes (toLowerCase s) ''blocked'' \<or>
      strIncludes (toLowerCase s) ''unavailable'' \<or>
      toLowerCase s = ''closed'' \<or>
      strIncludes (toLowerCase s) ''not available'')"

text \<open>The closure keywords, as the specification lists them.\<close>

definition closureKeywords :: "string list" where
  "closureKeywords = [''closed'', ''blocked'', ''unavailable'', ''not available'']"

text \<open>The name and the placeholder flag of the second branch.\<close>

definition summaryName :: "string \<Rightarrow> string \<times> bool" where
  "summaryName s =
     (let cleanSummary = trim s in
      case nameMatch cleanSummary of
        Some m \<Rightarrow>
          if m \<noteq> [] \<and>
             \<not> strIncludes (toLowerCase m) ''closed'' \<and>
             \<not> strIncludes (toLowerCase m) ''blocked'' \<and>
             \<not> strIncludes (toLowerCase m) ''unavailable''
          then (trim m, False)
          else (cleanSummary @ '' - Please Update'', True)
      | None \<Rightarrow> (cleanSummary @ '' - Please Update'', True))"

text \<open>The guest count of the second branch.\<close>

definition summaryGuests :: "string \<Rightarrow> enat" where
  "summaryGuests s =
     (case guestMatch s of
        Some ds \<Rightarrow> if ds \<noteq> [] then max 1 (parseInt ds) else 1
      | None \<Rightarrow> 1)"

text \<open>The e-mail address and the telephone number, from the description.\<close>

definition descriptionEmail :: "string option \<Rightarrow> string option" where
  "descriptionEmail d =
     (case d of
        None \<Rightarrow> None
      | Some s \<Rightarrow> if s \<noteq> [] then orNull (emailMatch s) else None)"

definition descriptionPhone :: "string option \<Rightarrow> string option" where
  "descriptionPhone d =
     (case d of
        None \<Rightarrow> None
      | Some s \<Rightarrow>
          if s \<noteq> []
          then (case phoneMatch s of
                  Some g \<Rightarrow> if g \<noteq> [] then orNull (Some (trim g)) else None
                | None \<Rightarrow> None)
          else None)"

definition extractGuestInfo :: "CalendarEvent \<Rightarrow> GuestInfo" where
  "extractGuestInfo event =
     (let (name0, guests0, isPlaceholder0) =
            (if summary event \<noteq> [] \<and> closureSummary (summary event)
             then (''Blocked Period - Please Update'', 1, True)
             else if summary event \<noteq> []
             then (fst (summaryName (summary event)), summaryGuests (summary event),
                   snd (summaryName (summary event)))
             else (''Calendar Reservation'', 1, True))
      in \<lparr> name = name0,
           email = descriptionEmail (description event),
           phone = descriptionPhone (description event),
           guests = guests0,
           isPlaceholder = isPlaceholder0 \<rparr>)"

subsection \<open>The parser\<close>

text \<open>
  What \<open>ical.parseICS\<close> returns: an object whose values are calendar components, walked
  by \<open>for (const key in parsed)\<close> in the object's key order. A component is an event or
  something else (a time zone, the calendar itself); of an event the code reads the
  fields below. The organizer is a string or an object with an optional \<open>params.CN\<close>.
\<close>

datatype Organizer = OrganizerString string | OrganizerObject "string option"

record VEvent =
  v_uid :: "string option"
  v_summary :: "string option"
  v_description :: "string option"
  v_start :: "date option"
  v_end :: "date option"
  v_location :: "string option"
  v_organizer :: "Organizer option"

datatype Component = VEVENT VEvent | OtherComponent string

datatype Error = Error string

fun flattenOrganizer :: "Organizer option \<Rightarrow> string" where
  "flattenOrganizer (Some (OrganizerString s)) = s"
| "flattenOrganizer (Some (OrganizerObject cn)) = orElse cn []"
| "flattenOrganizer None = []"

text \<open>The body of the loop for one event component: \<open>None\<close> is the \<open>continue\<close>.\<close>

definition toCalendarEvent :: "VEvent \<Rightarrow> CalendarEvent option" where
  "toCalendarEvent vevent =
     (case (v_uid vevent, v_start vevent, v_end vevent) of
        (Some u, Some s, Some e) \<Rightarrow>
          if u = [] then None
          else Some \<lparr> uid = u,
                      summary = orElse (v_summary vevent) ''Booking'',
                      description = Some (orElse (v_description vevent) []),
                      start = s,
                      end = e,
                      location = Some (orElse (v_location vevent) []),
                      organizer = Some (flattenOrganizer (v_organizer vevent)) \<rparr>
      | _ \<Rightarrow> None)"

fun parseLoop :: "(string \<times> Component) list \<Rightarrow> CalendarEvent list \<Rightarrow> CalendarEvent list" where
  "parseLoop [] events = events"
| "parseLoop ((key, VEVENT vevent) # rest) events =
     (case toCalendarEvent vevent of
        None \<Rightarrow> parseLoop rest events
      | Some ev \<Rightarrow> parseLoop rest (events @ [ev]))"
| "parseLoop ((key, OtherComponent ty) # rest) events = parseLoop rest events"

text \<open>What one entry of the parsed object contributes to the result.\<close>

fun componentEvent :: "string \<times> Component \<Rightarrow> CalendarEvent option" where
  "componentEvent (key, VEVENT vevent) = toCalendarEvent vevent"
| "componentEvent (key, OtherComponent ty) = None"

type_synonym ICalParser = "string \<Rightarrow> string + (string \<times> Component) list"

text \<open>\<open>parseICalData\<close>; an exception of the library is rethrown with a prefixed message.\<close>

definition parseICalData :: "ICalParser \<Rightarrow> string \<Rightarrow> Error + CalendarEvent list" where
  "parseICalData parseICS icalData =
     (case parseICS icalData of
        Inl msg \<Rightarrow> Inl (Error (''Failed to parse iCal data: '' @ msg))
      | Inr parsed \<Rightarrow> Inr (parseLoop parsed []))"

subsection \<open>The fetcher\<close>

text \<open>The two clocks at one moment: \<open>new Date().toISOString()\<close> and the database's \<open>NOW()\<close>.\<close>

record Clock =
  isoString :: string
  dbNow :: date

text \<open>
  An exception inside one call of \<open>processCalendarEvent\<close>, with its message: raised by
  the \<open>SELECT\<close> that opens the call, before the date check, or raised after the date
  check, by \<open>extractGuestInfo\<close> (a \<open>TypeError\<close> on a summary that is not a string) or by
  the \<open>UPDATE\<close> or the insert.
\<close>

datatype Fault = BeforeDateCheck string | AfterDateCheck string

text \<open>
  The environment: \<open>axiosGet url\<close> is the outcome of \<open>axios.get\<close>, either a rejection
  with its message (a time-out, a network failure, or a status outside 200 to 299, which
  axios rejects by itself) or a response with its status and body; \<open>parseICS\<close> is the
  library parser; \<open>eventFault clk event\<close> is the exception, if any, that the environment
  causes in the call of \<open>processCalendarEvent\<close> for \<open>event\<close> at the moment \<open>clk\<close>.
\<close>

record Env =
  axiosGet :: "string \<Rightarrow> string + (nat \<times> string)"
  parseICS :: ICalParser
  eventFault :: "Clock \<Rightarrow> CalendarEvent \<Rightarrow> Fault option"

definition downloadICalData :: "Env \<Rightarrow> string \<Rightarrow> Error + CalendarEvent list" where
  "downloadICalData env url =
     (case axiosGet env url of
        Inl msg \<Rightarrow> Inl (Error (''Failed to download iCal data: '' @ msg))
      | Inr (status, data) \<Rightarrow>
          if status \<noteq> 200
          then Inl (Error (''Failed to download iCal data: '' @
                           ''Failed to download calendar: HTTP '' @ showNat status))
          else (case parseICalData (parseICS env) data of
                  Inl (Error msg) \<Rightarrow> Inl (Error (''Failed to download iCal data: '' @ msg))
                | Inr events \<Rightarrow> Inr events))"

subsection \<open>The store\<close>

text \<open>
  The rows of the tables \<open>properties\<close> and \<open>bookings\<close>, with the columns the service and
  the booking routes name. The primary key of a booking is a number here; an insert
  takes a key larger than every key in the table. \<open>requests\<close> records the URLs fetched.
\<close>

record Property =
  prop_id :: string
  prop_name :: string
  ical_url :: "string option"
  sync_enabled :: bool
  user_id :: string
  last_sync_at :: "date option"

record Booking =
  bookingId :: nat
  propertyId :: string
  guestName :: string
  guestEmail :: "string option"
  guestPhone :: "string option"
  numberOfGuests :: enat
  checkInDate :: date
  checkOutDate :: date
  nightsCount :: int
  baseAmount :: rat
  cleaningFee :: rat
  taxes :: rat
  totalAmount :: rat
  securityDeposit :: rat
  bookingStatus :: string
  paymentStatus :: string
  bookingSource :: "string option"
  confirmationCode :: "string option"
  externalId :: "string option"
  specialRequests :: "string option"
  internalNotes :: "string option"
  createdAt :: date
  updatedAt :: date

record World =
  properties :: "Property list"
  bookings :: "Booking list"
  requests :: "string list"

record SyncResult =
  success :: bool
  message :: string
  bookingsCreated :: nat
  bookingsUpdated :: nat
  bookingsSkipped :: nat
  errors :: "string list"

definition emptyResult :: SyncResult where
  "emptyResult = \<lparr> success = False, message = [], bookingsCreated = 0, bookingsUpdated = 0,
                    bookingsSkipped = 0, errors = [] \<rparr>"

definition freshId :: "Booking list \<Rightarrow> nat" where
  "freshId bs = Suc (fold max (map bookingId bs) 0)"

text \<open>\<open>SELECT id FROM bookings WHERE property_id = ... AND external_id = ...\<close>\<close>

definition existingBookings :: "string \<Rightarrow> string \<Rightarrow> Booking list \<Rightarrow> Booking list" where
  "existingBookings pid u bs = filter (\<lambda>b. propertyId b = pid \<and> externalId b = Some u) bs"

text \<open>\<open>SELECT ... FROM properties WHERE id = ...\<close>\<close>

definition findProperties :: "string \<Rightarrow> Property list \<Rightarrow> Property list" where
  "findProperties pid ps = filter (\<lambda>p. prop_id p = pid) ps"

subsection \<open>Reconciliation of one event\<close>

text \<open>\<open>Math.ceil((checkOut - checkIn) / (1000 * 60 * 60 * 24))\<close>\<close>

definition nightsBetween :: "date \<Rightarrow> date \<Rightarrow> int" where
  "nightsBetween checkIn checkOut = - ((checkIn - checkOut) div (1000 * 60 * 60 * 24))"

text \<open>The \<open>SET\<close> list of the \<open>UPDATE bookings\<close> statement, applied to one row.\<close>

definition updateBooking :: "Clock \<Rightarrow> CalendarEvent \<Rightarrow> GuestInfo \<Rightarrow> int \<Rightarrow> Booking \<Rightarrow> Booking" where
  "updateBooking clk event guestInfo nights b =
     b \<lparr> guestName := name guestInfo,
         guestEmail := email guestInfo,
         guestPhone := phone guestInfo,
         numberOfGuests := guests guestInfo,
         checkInDate := start event,
         checkOutDate := end event,
         nightsCount := nights,
         specialRequests := orNull (description event),
         internalNotes := Some (''Updated from calendar sync on '' @ isoString clk),
         updatedAt := dbNow clk \<rparr>"

text \<open>
  The row \<open>prisma.booking.create\<close> inserts. The columns the call does not list take
  their defaults: a fresh key, no confirmation code, the insertion time.
\<close>

definition newBooking :: "Clock \<Rightarrow> nat \<Rightarrow> string \<Rightarrow> CalendarEvent \<Rightarrow> GuestInfo \<Rightarrow> int \<Rightarrow> Booking" where
  "newBooking clk newId pid event guestInfo nights =
     \<lparr> bookingId = newId,
       propertyId = pid,
       guestName = name guestInfo,
       guestEmail = orNull (email guestInfo),
       guestPhone = orNull (phone guestInfo),
       numberOfGuests = guests guestInfo,
       checkInDate = start event,
       checkOutDate = end event,
       nightsCount = nights,
       baseAmount = 0,
       cleaningFee = 0,
       taxes = 0,
       totalAmount = 0,
       securityDeposit = 0,
       bookingStatus = ''pending'',
       paymentStatus = ''pending'',
       bookingSource = Some ''booking.com'',
       confirmationCode = None,
       externalId = Some (uid event),
       specialRequests = orNull (description event),
       internalNotes = Some
         (if isPlaceholder guestInfo
          then ''[PLACEHOLDER] Calendar blocked date - imported from calendar sync on '' @ isoString clk
          else ''Imported from calendar sync on '' @ isoString clk),
       createdAt = dbNow clk,
       updatedAt = dbNow clk \<rparr>"

definition processCalendarEvent ::
  "Clock \<Rightarrow> string \<Rightarrow> CalendarEvent \<Rightarrow> World \<times> SyncResult \<Rightarrow> World \<times> SyncResult" where
  "processCalendarEvent clk pid event st =
     (let w = fst st; result = snd st;
          existingBooking =
            (case existingBookings pid (uid event) (bookings w) of
               [] \<Rightarrow> None
             | b # _ \<Rightarrow> Some (bookingId b));
          nights = nightsBetween (start event) (end event)
      in if nights \<le> 0
         then (w, result \<lparr> errors := errors result @ [''Invalid date range for event '' @ uid event] \<rparr>)
         else
           let guestInfo = extractGuestInfo event in
           case existingBooking of
             Some i \<Rightarrow>
               (w \<lparr> bookings :=
                      map (\<lambda>b. if bookingId b = i then updateBooking clk event guestInfo nights b else b)
                          (bookings w) \<rparr>,
                result \<lparr> bookingsUpdated := bookingsUpdated result + 1 \<rparr>)
           | None \<Rightarrow>
               (w \<lparr> bookings :=
                      bookings w @ [newBooking clk (freshId (bookings w)) pid event guestInfo nights] \<rparr>,
                result \<lparr> bookingsCreated := bookingsCreated result + 1 \<rparr>))"

subsection \<open>The sync of one property\<close>

text \<open>
  The message of the exception a call of \<open>processCalendarEvent\<close> raises, if it raises
  one. A fault after the date check does not show when the date check returns first.
\<close>

definition raisedMessage :: "Env \<Rightarrow> Clock \<Rightarrow> CalendarEvent \<Rightarrow> string option" where
  "raisedMessage env clk event =
     (case eventFault env clk event of
        None \<Rightarrow> None
      | Some (BeforeDateCheck msg) \<Rightarrow> Some msg
      | Some (AfterDateCheck msg) \<Rightarrow>
          if nightsBetween (start event) (end event) \<le> 0 then None else Some msg)"

text \<open>
  One turn of the loop, the \<open>try\<close> with its \<open>catch\<close>. An exception leaves the store
  and the counters as they were, since every write and every increment is the last
  thing its branch does, and the \<open>catch\<close> records the error.
\<close>

definition tryProcessCalendarEvent ::
  "Env \<Rightarrow> Clock \<Rightarrow> string \<Rightarrow> CalendarEvent \<Rightarrow> World \<times> SyncResult \<Rightarrow> World \<times> SyncResult" where
  "tryProcessCalendarEvent env clk pid event st =
     (case raisedMessage env clk event of
        None \<Rightarrow> processCalendarEvent clk pid event st
      | Some msg \<Rightarrow>
          (fst st,
           (snd st) \<lparr> errors := errors (snd st) @
                        [''Error processing event '' @ uid event @ '': '' @ msg] \<rparr>))"

text \<open>
  The loop over the events; the clocks are read anew for each event, \<open>clock k\<close> being the
  reading at the \<open>k\<close>-th event of the pass.
\<close>

fun processEvents ::
  "Env \<Rightarrow> (nat \<Rightarrow> Clock) \<Rightarrow> nat \<Rightarrow> string \<Rightarrow> CalendarEvent list \<Rightarrow> World \<times> SyncResult \<Rightarrow> World \<times> SyncResult" where
  "processEvents env clock k pid [] st = st"
| "processEvents env clock k pid (event # rest) st =
     processEvents env clock (Suc k) pid rest (tryProcessCalendarEvent env (clock k) pid event st)"

text \<open>\<open>UPDATE properties SET last_sync_at = NOW() WHERE id = ...\<close>\<close>

definition touchLastSync :: "date \<Rightarrow> string \<Rightarrow> Property list \<Rightarrow> Property list" where
  "touchLastSync now pid ps = map (\<lambda>p. if prop_id p = pid then p \<lparr> last_sync_at := Some now \<rparr> else p) ps"

definition finishResult :: "SyncResult \<Rightarrow> SyncResult" where
  "finishResult result =
     (let ok = (errors result = []) in
      result \<lparr> success := ok,
               message :=
                 (if ok
                  then ''Sync completed successfully. Created: '' @ showNat (bookingsCreated result) @
                       '', Updated: '' @ showNat (bookingsUpdated result) @
                       '', Skipped: '' @ showNat (bookingsSkipped result)
                  else ''Sync completed with '' @ showNat (length (errors result)) @ '' errors'') \<rparr>)"

definition syncPropertyCalendarWithUrl ::
  "Env \<Rightarrow> (nat \<Rightarrow> Clock) \<Rightarrow> string \<Rightarrow> string \<Rightarrow> World \<Rightarrow> SyncResult \<times> World" where
  "syncPropertyCalendarWithUrl env clock pid icalUrl w =
     (case findProperties pid (properties w) of
        [] \<Rightarrow> (emptyResult \<lparr> errors := [''Property not found''] \<rparr>, w)
      | property # _ \<Rightarrow>
          (let w1 = w \<lparr> requests := requests w @ [icalUrl] \<rparr> in
           case downloadICalData env icalUrl of
             Inl (Error msg) \<Rightarrow> (emptyResult \<lparr> errors := [''Sync failed: '' @ msg] \<rparr>, w1)
           | Inr events \<Rightarrow>
               (let (w2, result) = processEvents env clock 0 pid events (w1, emptyResult);
                    w3 = w2 \<lparr> properties := touchLastSync (dbNow (clock (length events))) pid (properties w2) \<rparr>
                in (finishResult result, w3))))"

definition syncPropertyCalendar ::
  "Env \<Rightarrow> (nat \<Rightarrow> Clock) \<Rightarrow> string \<Rightarrow> World \<Rightarrow> SyncResult \<times> World" where
  "syncPropertyCalendar env clock pid w =
     (case findProperties pid (properties w) of
        [] \<Rightarrow> (emptyResult \<lparr> errors := [''Property not found''] \<rparr>, w)
      | property # _ \<Rightarrow>
          if \<not> sync_enabled property \<or> \<not> truthy (ical_url property)
          then (emptyResult \<lparr> errors := [''Calendar sync is not enabled for this property''] \<rparr>, w)
          else syncPropertyCalendarWithUrl env clock pid (orElse (ical_url property) []) w)"




text \<open>
  The content check of the route \<open>POST /test-url\<close> (routes/calendar.ts) on the body of a
  response: \<open>data.includes('BEGIN:VCALENDAR')\<close>.
\<close>

definition looksLikeICal :: "string \<Rightarrow> bool" where
  "looksLikeICal data = strIncludes data ''BEGIN:VCALENDAR''"


subsection \<open>Example data\<close>

definition exampleClock :: Clock where
  "exampleClock = \<lparr> isoString = ''2025-03-05T10:00:00.000Z'', dbNow = 1741168800000 \<rparr>"

definition janeEvent :: CalendarEvent where
  "janeEvent = \<lparr> uid = ''abc123'', summary = ''Jane Roe'', description = Some [],
                  start = 1740787200000, end = 1741046400000,
                  location = Some [], organizer = Some [] \<rparr>"

definition reversedEvent :: CalendarEvent where
  "reversedEvent = janeEvent \<lparr> uid := ''rev1'', start := 1741046400000, end := 1740787200000 \<rparr>"

definition exampleProperty :: Property where
  "exampleProperty = \<lparr> prop_id = ''p1'', prop_name = ''Cozy Downtown Apartment'',
                        ical_url = Some ''https://example.org/cal.ics'', sync_enabled = True,
                        user_id = ''u1'', last_sync_at = None \<rparr>"

definition paidBooking :: Booking where
  "paidBooking = \<lparr> bookingId = 7, propertyId = ''p1'', guestName = ''J. Roe'',
       guestEmail = Some ''jane@example.org'', guestPhone = None, numberOfGuests = 2,
       checkInDate = 1740787200000, checkOutDate = 1740960000000, nightsCount = 2,
       baseAmount = 540, cleaningFee = 75, taxes = 123 / 2, totalAmount = 1353 / 2,
       securityDeposit = 200, bookingStatus = ''confirmed'', paymentStatus = ''paid'',
       bookingSource = Some ''booking.com'', confirmationCode = Some ''RNT001'',
       externalId = Some ''abc123'', specialRequests = None, internalNotes = None,
       createdAt = 1740000000000, updatedAt = 1740000000000 \<rparr>"

definition emptyWorld :: World where
  "emptyWorld = \<lparr> properties = [exampleProperty], bookings = [], requests = [] \<rparr>"

definition bookedWorld :: World where
  "bookedWorld = \<lparr> properties = [exampleProperty], bookings = [paidBooking], requests = [] \<rparr>"

definition staleEvent :: CalendarEvent where
  "staleEvent = janeEvent \<lparr> start := 1741046400000, end := 1740787200000 \<rparr>"

definition summaryEvent :: "string \<Rightarrow> CalendarEvent" where
  "summaryEvent s = janeEvent \<lparr> summary := s \<rparr>"

definition bareVEvent :: VEvent where
  "bareVEvent = \<lparr> v_uid = Some ''abc123'', v_summary = None, v_description = None,
                   v_start = Some 1740787200000, v_end = Some 1741046400000,
                   v_location = None, v_organizer = None \<rparr>"

definition noUidVEvent :: VEvent where
  "noUidVEvent = bareVEvent \<lparr> v_uid := None, v_summary := Some ''Lost'' \<rparr>"

definition secondVEvent :: VEvent where
  "secondVEvent = bareVEvent \<lparr> v_uid := Some ''def456'', v_summary := Some ''John Doe - 2 guests'' \<rparr>"

text \<open>A parser that finds the same three entries in every text, the middle one without uid.\<close>

definition threeEntries :: ICalParser where
  "threeEntries text = Inr [(''abc123'', VEVENT bareVEvent), (''k2'', VEVENT noUidVEvent),
                            (''def456'', VEVENT secondVEvent)]"

text \<open>
  A server that answers every request with status 200 and a page of HTML. The text has no
  line of the form \<open>NAME:value\<close>, so the library parser returns an object with no entries.
\<close>

definition htmlEnv :: Env where
  "htmlEnv = \<lparr> axiosGet = (\<lambda>url. Inr (200, ''<html>Not a calendar</html>'')),
                parseICS = (\<lambda>text. Inr []),
                eventFault = (\<lambda>clk event. None) \<rparr>"

definition disabledProperty :: Property where
  "disabledProperty = exampleProperty \<lparr> prop_id := ''p2'', sync_enabled := False \<rparr>"

definition disabledWorld :: World where
  "disabledWorld = \<lparr> properties = [exampleProperty, disabledProperty], bookings = [paidBooking],
                      requests = [] \<rparr>"

text \<open>
  A calendar of three events: two stays and an entry that ends before it starts. Every
  URL is answered with it, and no call raises an exception.
\<close>

definition janeVEvent :: VEvent where
  "janeVEvent = bareVEvent \<lparr> v_summary := Some ''Jane Roe'' \<rparr>"

definition reversedVEvent :: VEvent where
  "reversedVEvent = janeVEvent \<lparr> v_uid := Some ''rev1'', v_end := Some 1740000000000 \<rparr>"

definition calendarEnv :: Env where
  "calendarEnv =
     \<lparr> axiosGet = (\<lambda>url. Inr (200, ''BEGIN:VCALENDAR'')),
       parseICS = (\<lambda>text. Inr [(''abc123'', VEVENT janeVEvent),
                                (''def456'', VEVENT secondVEvent),
                                (''rev1'', VEVENT reversedVEvent)]),
       eventFault = (\<lambda>clk event. None) \<rparr>"

definition calendarEvents :: "CalendarEvent list" where
  "calendarEvents =
     [janeEvent,
      janeEvent \<lparr> uid := ''def456'', summary := ''John Doe - 2 guests'' \<rparr>,
      janeEvent \<lparr> uid := ''rev1'', end := 1740000000000 \<rparr>]"



text \<open>The address of a feed that another platform serves.\<close>

definition airbnbUrl :: string where
  "airbnbUrl = ''https://www.airbnb.com/calendar/ical/42.ics''"

section \<open>Verified properties\<close>

lemmas example_defs = exampleClock_def janeEvent_def reversedEvent_def exampleProperty_def
  paidBooking_def emptyWorld_def bookedWorld_def staleEvent_def

lemmas char_class_defs = toLowerCase_def toLower_def upperLetters_def lowerLetters_def
  isAlpha_def isDigit_def isSpace_def isNameChar_def startsWith_def trim_def

lemmas literal_search = strIncludes_def sublist_code(3) prefix_code

subsection \<open>Nights and the store\<close>

lemma nightsBetween_ceiling:
  "nightsBetween a b = \<lceil>real_of_int (b - a) / 86400000\<rceil>"
proof -
  have "nightsBetween a b = - ((a - b) div 86400000)"
    by (simp add: nightsBetween_def)
  also have "(a - b) div 86400000 = \<lfloor>real_of_int (a - b) / real_of_int 86400000\<rfloor>"
    by (rule floor_divide_of_int_eq[symmetric])
  also have "- \<dots> = \<lceil>- (real_of_int (a - b) / real_of_int 86400000)\<rceil>"
    by (simp only: ceiling_def minus_minus)
  also have "- (real_of_int (a - b) / real_of_int 86400000) = real_of_int (b - a) / 86400000"
    by (simp add: minus_divide_left)
  finally show ?thesis .
qed

lemma nightsBetween_nonpos_iff: "nightsBetween a b \<le> 0 \<longleftrightarrow> b \<le> a"
  unfolding nightsBetween_def by (simp add: pos_imp_zdiv_nonneg_iff)

lemma process_invalid:
  "nightsBetween (start event) (end event) \<le> 0 \<Longrightarrow>
   processCalendarEvent clk pid event (w, result) =
     (w, result \<lparr> errors := errors result @ [''Invalid date range for event '' @ uid event] \<rparr>)"
  by (simp add: processCalendarEvent_def Let_def)

lemma fold_max_ge: "m \<le> fold max xs (m::nat)"
  by (induction xs arbitrary: m) (auto intro: order_trans[OF max.cobounded2])

lemma fold_max_mem: "x \<in> set xs \<Longrightarrow> x \<le> fold max xs (m::nat)"
proof (induction xs arbitrary: m)
  case Nil then show ?case by simp
next
  case (Cons y ys)
  show ?case
  proof (cases "x = y")
    case True
    have "max y m \<le> fold max ys (max y m)" by (rule fold_max_ge)
    with True show ?thesis by simp
  next
    case False
    with Cons show ?thesis by simp
  qed
qed

lemma freshId_fresh: "b \<in> set bs \<Longrightarrow> bookingId b < freshId bs"
  unfolding freshId_def using fold_max_mem[of "bookingId b" "map bookingId bs" 0] by auto

lemma process_create:
  assumes "0 < nightsBetween (start event) (end event)"
      and "existingBookings pid (uid event) (bookings w) = []"
  shows "processCalendarEvent clk pid event (w, result) =
     (w \<lparr> bookings := bookings w @
            [newBooking clk (freshId (bookings w)) pid event (extractGuestInfo event)
               (nightsBetween (start event) (end event))] \<rparr>,
      result \<lparr> bookingsCreated := bookingsCreated result + 1 \<rparr>)"
  using assms by (simp add: processCalendarEvent_def Let_def)

lemma process_update:
  assumes "0 < nightsBetween (start event) (end event)"
      and "existingBookings pid (uid event) (bookings w) = b0 # others"
  shows "processCalendarEvent clk pid event (w, result) =
     (w \<lparr> bookings := map (\<lambda>b. if bookingId b = bookingId b0
              then updateBooking clk event (extractGuestInfo event)
                     (nightsBetween (start event) (end event)) b
              else b) (bookings w) \<rparr>,
      result \<lparr> bookingsUpdated := bookingsUpdated result + 1 \<rparr>)"
  using assms by (simp add: processCalendarEvent_def Let_def)

subsection \<open>Reconciliation\<close>

text \<open>
  Claim C4. The number of nights is the ceiling of the stay's length in days; it is at
  most zero whenever the event ends no later than it starts; and an event with at most
  zero nights leaves the store as it was, appends the error
  "Invalid date range for event <uid>" to the result and changes none of the counters.
\<close>

theorem invalid_range_rejected:
  "nightsBetween (start event) (end event) = \<lceil>real_of_int (end event - start event) / 86400000\<rceil> \<and>
   (end event \<le> start event \<longrightarrow> nightsBetween (start event) (end event) \<le> 0) \<and>
   (nightsBetween (start event) (end event) \<le> 0 \<longrightarrow>
      (let st' = processCalendarEvent clk pid event (w, result) in
       fst st' = w \<and>
       errors (snd st') = errors result @ [''Invalid date range for event '' @ uid event] \<and>
       bookingsCreated (snd st') = bookingsCreated result \<and>
       bookingsUpdated (snd st') = bookingsUpdated result \<and>
       bookingsSkipped (snd st') = bookingsSkipped result))"
  by (simp add: nightsBetween_ceiling nightsBetween_nonpos_iff process_invalid Let_def)

theorem invalid_range_rejected_witness:
  "end reversedEvent \<le> start reversedEvent \<and>
   nightsBetween (start reversedEvent) (end reversedEvent) = - 3 \<and>
   fst (processCalendarEvent exampleClock ''p1'' reversedEvent (bookedWorld, emptyResult)) = bookedWorld \<and>
   errors (snd (processCalendarEvent exampleClock ''p1'' reversedEvent (bookedWorld, emptyResult)))
     = [''Invalid date range for event rev1'']"
proof -
  have le: "end reversedEvent \<le> start reversedEvent"
    by (simp add: example_defs)
  have n: "nightsBetween (start reversedEvent) (end reversedEvent) = - 3"
    by (simp add: example_defs nightsBetween_def)
  from invalid_range_rejected [of reversedEvent exampleClock "''p1''" bookedWorld emptyResult] le
  show ?thesis
    by (simp add: n Let_def emptyResult_def reversedEvent_def janeEvent_def)
qed

text \<open>
  Claim C6, as stated, fails: the booking source is not the platform the event comes
  from. The calendar of the example, fetched from a feed of another platform, whose
  address does not mention "booking.com", gives two bookings, both with the source
  "booking.com".
\<close>

theorem foreign_feed_is_booking_com_counterexample:
  "\<not> strIncludes airbnbUrl ''booking.com'' \<and>
   requests (snd (syncPropertyCalendarWithUrl calendarEnv (\<lambda>k. exampleClock) ''p1'' airbnbUrl emptyWorld))
     = [airbnbUrl] \<and>
   map bookingSource
     (bookings (snd (syncPropertyCalendarWithUrl calendarEnv (\<lambda>k. exampleClock) ''p1'' airbnbUrl emptyWorld)))
     = [Some ''booking.com'', Some ''booking.com'']"
proof -
  have u: "\<not> strIncludes airbnbUrl ''booking.com''"
    by (simp add: airbnbUrl_def literal_search)
  have d: "downloadICalData calendarEnv airbnbUrl = Inr calendarEvents"
    by (simp add: downloadICalData_def parseICalData_def calendarEnv_def toCalendarEvent_def
          janeVEvent_def secondVEvent_def reversedVEvent_def bareVEvent_def janeEvent_def
          calendarEvents_def)
  have f: "findProperties ''p1'' (properties emptyWorld) = [exampleProperty]"
    by (simp add: findProperties_def emptyWorld_def exampleProperty_def)
  have "snd (syncPropertyCalendarWithUrl calendarEnv (\<lambda>k. exampleClock) ''p1'' airbnbUrl emptyWorld) =
          snd (syncPropertyCalendarWithUrl calendarEnv (\<lambda>k. exampleClock) ''p1'' airbnbUrl emptyWorld)"
    by simp
  show ?thesis
    using u f d
    by (simp add: syncPropertyCalendarWithUrl_def tryProcessCalendarEvent_def raisedMessage_def
          processCalendarEvent_def existingBookings_def newBooking_def nightsBetween_def
          calendarEvents_def calendarEnv_def janeEvent_def emptyWorld_def Let_def
          split: prod.splits)
qed

text \<open>
  Claim C6, amended. For an event with a positive number of nights and no booking of the
  property carrying its uid as external id, reconciliation appends exactly one row to the
  bookings table, with a key no existing row has, and adds one to \<open>bookingsCreated\<close>. The
  row has booking and payment status "pending", the five amounts zero, the booking
  source "booking.com" whatever feed the event comes from, the event's uid as external
  id, and internal notes that start with "[PLACEHOLDER]" exactly when the derived guest
  information is a placeholder.
\<close>

theorem create_when_absent:
  assumes "0 < nightsBetween (start event) (end event)"
      and "existingBookings pid (uid event) (bookings w) = []"
  shows "\<exists>b notes.
     processCalendarEvent clk pid event (w, result) =
       (w \<lparr> bookings := bookings w @ [b] \<rparr>,
        result \<lparr> bookingsCreated := bookingsCreated result + 1 \<rparr>) \<and>
     bookingId b \<notin> bookingId ` set (bookings w) \<and>
     propertyId b = pid \<and>
     externalId b = Some (uid event) \<and>
     bookingStatus b = ''pending'' \<and>
     paymentStatus b = ''pending'' \<and>
     baseAmount b = 0 \<and> cleaningFee b = 0 \<and> taxes b = 0 \<and> totalAmount b = 0 \<and>
     securityDeposit b = 0 \<and>
     bookingSource b = Some ''booking.com'' \<and>
     nightsCount b = nightsBetween (start event) (end event) \<and>
     internalNotes b = Some notes \<and>
     (startsWith notes ''[PLACEHOLDER]'' \<longleftrightarrow> isPlaceholder (extractGuestInfo event))"
proof -
  let ?b = "newBooking clk (freshId (bookings w)) pid event (extractGuestInfo event)
              (nightsBetween (start event) (end event))"
  let ?notes = "if isPlaceholder (extractGuestInfo event)
          then ''[PLACEHOLDER] Calendar blocked date - imported from calendar sync on '' @ isoString clk
          else ''Imported from calendar sync on '' @ isoString clk"
  have fresh: "bookingId ?b \<notin> bookingId ` set (bookings w)"
  proof
    assume "bookingId ?b \<in> bookingId ` set (bookings w)"
    then obtain x where x: "x \<in> set (bookings w)" "bookingId x = bookingId ?b" by auto
    from freshId_fresh[OF x(1)] x(2) show False by (simp add: newBooking_def)
  qed
  have nts: "internalNotes ?b = Some ?notes" by (simp add: newBooking_def)
  have prefix: "startsWith ?notes ''[PLACEHOLDER]'' \<longleftrightarrow> isPlaceholder (extractGuestInfo event)"
    by (simp add: startsWith_def)
  have fields: "propertyId ?b = pid \<and> externalId ?b = Some (uid event) \<and>
     bookingStatus ?b = ''pending'' \<and> paymentStatus ?b = ''pending'' \<and>
     baseAmount ?b = 0 \<and> cleaningFee ?b = 0 \<and> taxes ?b = 0 \<and> totalAmount ?b = 0 \<and>
     securityDeposit ?b = 0 \<and> bookingSource ?b = Some ''booking.com'' \<and>
     nightsCount ?b = nightsBetween (start event) (end event)"
    by (simp add: newBooking_def)
  from process_create[OF assms] fresh nts prefix fields show ?thesis by blast
qed

theorem create_when_absent_witness:
  "0 < nightsBetween (start janeEvent) (end janeEvent) \<and>
   existingBookings ''p1'' (uid janeEvent) (bookings emptyWorld) = [] \<and>
   (\<exists>b. fst (processCalendarEvent exampleClock ''p1'' janeEvent (emptyWorld, emptyResult)) =
          emptyWorld \<lparr> bookings := [b] \<rparr> \<and>
        externalId b = Some ''abc123'' \<and> nightsCount b = 3 \<and> bookingStatus b = ''pending'') \<and>
   bookingsCreated (snd (processCalendarEvent exampleClock ''p1'' janeEvent (emptyWorld, emptyResult))) = 1"
proof -
  have n: "nightsBetween (start janeEvent) (end janeEvent) = 3"
    by (simp add: example_defs nightsBetween_def)
  have h1: "0 < nightsBetween (start janeEvent) (end janeEvent)" by (simp add: n)
  have h2: "existingBookings ''p1'' (uid janeEvent) (bookings emptyWorld) = []"
    by (simp add: emptyWorld_def existingBookings_def)
  from create_when_absent [OF h1 h2, of exampleClock emptyResult]
  obtain b where
    "processCalendarEvent exampleClock ''p1'' janeEvent (emptyWorld, emptyResult) =
       (emptyWorld \<lparr> bookings := bookings emptyWorld @ [b] \<rparr>,
        emptyResult \<lparr> bookingsCreated := bookingsCreated emptyResult + 1 \<rparr>)"
    "externalId b = Some (uid janeEvent)" "nightsCount b = nightsBetween (start janeEvent) (end janeEvent)"
    "bookingStatus b = ''pending''"
    by blast
  moreover have "uid janeEvent = ''abc123''" by (simp add: janeEvent_def)
  ultimately show ?thesis using h1 h2
    by (auto simp: n emptyWorld_def emptyResult_def)
qed

lemma updateBooking_frame:
  "(updateBooking clk event g n b)
     \<lparr> guestName := guestName b, guestEmail := guestEmail b, guestPhone := guestPhone b,
       numberOfGuests := numberOfGuests b, checkInDate := checkInDate b,
       checkOutDate := checkOutDate b, nightsCount := nightsCount b,
       specialRequests := specialRequests b, internalNotes := internalNotes b,
       updatedAt := updatedAt b \<rparr> = b"
  by (simp add: updateBooking_def)

text \<open>
  Claim C5, as stated, fails in two ways. The update also rewrites the column
  \<open>updated_at\<close>, which is not among the fields the claim lists: the stored booking of
  the example was last updated at 1740000000000, and after the event is reconciled at
  database time 1741168800000 its \<open>updatedAt\<close> is that time. And an existing booking is
  not enough for the update: an event with the same uid that ends before it starts finds
  the booking but is rejected, and \<open>bookingsUpdated\<close> stays 0.
\<close>

theorem update_touches_updatedAt_counterexample:
  "existingBookings ''p1'' (uid janeEvent) (bookings bookedWorld) = [paidBooking] \<and>
   map updatedAt (bookings bookedWorld) = [1740000000000] \<and>
   map updatedAt (bookings (fst (processCalendarEvent exampleClock ''p1'' janeEvent
                                   (bookedWorld, emptyResult)))) = [1741168800000] \<and>
   existingBookings ''p1'' (uid staleEvent) (bookings bookedWorld) = [paidBooking] \<and>
   bookingsUpdated (snd (processCalendarEvent exampleClock ''p1'' staleEvent
                           (bookedWorld, emptyResult))) = 0"
  by (simp add: processCalendarEvent_def existingBookings_def updateBooking_def nightsBetween_def
        example_defs emptyResult_def Let_def)

text \<open>
  Claim C5, amended. For an event with a positive number of nights for which the lookup
  by property and external id finds a booking, reconciliation adds one to
  \<open>bookingsUpdated\<close> and rewrites the bookings table row by row: rows whose key differs
  from the found booking's are unchanged; in a row with that key the guest name, e-mail,
  telephone, guest count, check-in and check-out dates, nights count, special requests
  (the event's description, or null when it is empty), internal notes (the marker
  "Updated from calendar sync on <timestamp>") and \<open>updatedAt\<close> (the database's current
  time) are set, and putting the old values of these ten fields back gives the old row,
  so every other field, the amounts and the two status fields among them, is unchanged.
\<close>

theorem update_when_present:
  assumes "0 < nightsBetween (start event) (end event)"
      and "existingBookings pid (uid event) (bookings w) = b0 # others"
  shows "\<exists>bs'.
     processCalendarEvent clk pid event (w, result) =
       (w \<lparr> bookings := bs' \<rparr>, result \<lparr> bookingsUpdated := bookingsUpdated result + 1 \<rparr>) \<and>
     length bs' = length (bookings w) \<and>
     b0 \<in> set (bookings w) \<and>
     (\<forall>i < length (bookings w).
        (bookingId (bookings w ! i) \<noteq> bookingId b0 \<longrightarrow> bs' ! i = bookings w ! i) \<and>
        (bookingId (bookings w ! i) = bookingId b0 \<longrightarrow>
           guestName (bs' ! i) = name (extractGuestInfo event) \<and>
           guestEmail (bs' ! i) = email (extractGuestInfo event) \<and>
           guestPhone (bs' ! i) = phone (extractGuestInfo event) \<and>
           numberOfGuests (bs' ! i) = guests (extractGuestInfo event) \<and>
           checkInDate (bs' ! i) = start event \<and>
           checkOutDate (bs' ! i) = end event \<and>
           nightsCount (bs' ! i) = nightsBetween (start event) (end event) \<and>
           specialRequests (bs' ! i) = orNull (description event) \<and>
           internalNotes (bs' ! i) = Some (''Updated from calendar sync on '' @ isoString clk) \<and>
           updatedAt (bs' ! i) = dbNow clk \<and>
           (bs' ! i) \<lparr> guestName := guestName (bookings w ! i),
                       guestEmail := guestEmail (bookings w ! i),
                       guestPhone := guestPhone (bookings w ! i),
                       numberOfGuests := numberOfGuests (bookings w ! i),
                       checkInDate := checkInDate (bookings w ! i),
                       checkOutDate := checkOutDate (bookings w ! i),
                       nightsCount := nightsCount (bookings w ! i),
                       specialRequests := specialRequests (bookings w ! i),
                       internalNotes := internalNotes (bookings w ! i),
                       updatedAt := updatedAt (bookings w ! i) \<rparr> = bookings w ! i))"
proof -
  let ?f = "\<lambda>b. if bookingId b = bookingId b0
              then updateBooking clk event (extractGuestInfo event)
                     (nightsBetween (start event) (end event)) b
              else b"
  let ?bs = "map ?f (bookings w)"
  have mem: "b0 \<in> set (bookings w)"
  proof -
    have "b0 \<in> set (existingBookings pid (uid event) (bookings w))"
      by (simp add: assms(2))
    then show ?thesis by (simp add: existingBookings_def)
  qed
  have rows: "\<forall>i < length (bookings w).
        (bookingId (bookings w ! i) \<noteq> bookingId b0 \<longrightarrow> ?bs ! i = bookings w ! i) \<and>
        (bookingId (bookings w ! i) = bookingId b0 \<longrightarrow>
           ?bs ! i = updateBooking clk event (extractGuestInfo event)
                       (nightsBetween (start event) (end event)) (bookings w ! i))"
    by simp
  have vals: "\<And>b g n. guestName (updateBooking clk event g n b) = name g \<and>
           guestEmail (updateBooking clk event g n b) = email g \<and>
           guestPhone (updateBooking clk event g n b) = phone g \<and>
           numberOfGuests (updateBooking clk event g n b) = guests g \<and>
           checkInDate (updateBooking clk event g n b) = start event \<and>
           checkOutDate (updateBooking clk event g n b) = end event \<and>
           nightsCount (updateBooking clk event g n b) = n \<and>
           specialRequests (updateBooking clk event g n b) = orNull (description event) \<and>
           internalNotes (updateBooking clk event g n b) =
             Some (''Updated from calendar sync on '' @ isoString clk) \<and>
           updatedAt (updateBooking clk event g n b) = dbNow clk"
    by (simp add: updateBooking_def)
  show ?thesis
  proof (intro exI[of _ ?bs] conjI allI impI)
    show "processCalendarEvent clk pid event (w, result) =
       (w \<lparr> bookings := ?bs \<rparr>, result \<lparr> bookingsUpdated := bookingsUpdated result + 1 \<rparr>)"
      by (rule process_update[OF assms])
  qed (use mem rows vals updateBooking_frame in \<open>simp_all\<close>)
qed

theorem update_when_present_witness:
  "0 < nightsBetween (start janeEvent) (end janeEvent) \<and>
   existingBookings ''p1'' (uid janeEvent) (bookings bookedWorld) = [paidBooking] \<and>
   (\<exists>bs'. processCalendarEvent exampleClock ''p1'' janeEvent (bookedWorld, emptyResult) =
            (bookedWorld \<lparr> bookings := bs' \<rparr>, emptyResult \<lparr> bookingsUpdated := 1 \<rparr>) \<and>
          length bs' = 1)"
proof -
  have h1: "0 < nightsBetween (start janeEvent) (end janeEvent)"
    by (simp add: example_defs nightsBetween_def)
  have h2: "existingBookings ''p1'' (uid janeEvent) (bookings bookedWorld) = paidBooking # []"
    by (simp add: bookedWorld_def existingBookings_def paidBooking_def janeEvent_def)
  from update_when_present [OF h1 h2, of exampleClock emptyResult]
  obtain bs' where
    "processCalendarEvent exampleClock ''p1'' janeEvent (bookedWorld, emptyResult) =
       (bookedWorld \<lparr> bookings := bs' \<rparr>,
        emptyResult \<lparr> bookingsUpdated := bookingsUpdated emptyResult + 1 \<rparr>)"
    "length bs' = length (bookings bookedWorld)"
    by blast
  moreover have "bookingsUpdated emptyResult + 1 = 1" "length (bookings bookedWorld) = 1"
    by (simp_all add: emptyResult_def bookedWorld_def)
  ultimately show ?thesis using h1 h2 by auto
qed

subsection \<open>Guest information\<close>

lemma toDouble_small: "n < 2 ^ 53 \<Longrightarrow> toDouble n = enat n"
  by (simp add: toDouble_def)

lemmas enat_literals = numeral_eq_enat one_enat_def zero_enat_def

lemma closureSummary_keyword:
  assumes "k \<in> set closureKeywords" and "toLowerCase s = ps @ k @ ss"
  shows "closureSummary s \<and> s \<noteq> []"
proof -
  have "sublist k (toLowerCase s)"
    using assms(2) by (auto simp: sublist_def)
  moreover have "k \<noteq> []" using assms(1) by (auto simp: closureKeywords_def)
  ultimately show ?thesis
    using assms by (auto simp: closureSummary_def strIncludes_def closureKeywords_def toLowerCase_def)
qed

lemma extract_blocked:
  assumes "closureSummary (summary event)" and "summary event \<noteq> []"
  shows "name (extractGuestInfo event) = ''Blocked Period - Please Update''"
    and "guests (extractGuestInfo event) = 1"
    and "isPlaceholder (extractGuestInfo event)"
  using assms by (simp_all add: extractGuestInfo_def)

lemma blocked_label_includes: "strIncludes ''Blocked Period - Please Update'' ''Blocked''"
  by (simp add: literal_search)

lemma extract_john_doe:
  assumes "summary event = ''John Doe - 2 guests''"
  shows "name (extractGuestInfo event) = ''John Doe''"
    and "guests (extractGuestInfo event) = 2"
    and "\<not> isPlaceholder (extractGuestInfo event)"
proof -
  have c: "\<not> closureSummary ''John Doe - 2 guests''"
    by (simp add: closureSummary_def char_class_defs literal_search)
  have n: "summaryName ''John Doe - 2 guests'' = (''John Doe'', False)"
    by (simp add: summaryName_def nameMatch_def nameTail_def char_class_defs literal_search)
  have g: "summaryGuests ''John Doe - 2 guests'' = 2"
    by (simp add: summaryGuests_def guestAt_def parseInt_def digitsValue_def digitVal_def
          toDouble_small enat_literals char_class_defs)
  show "name (extractGuestInfo event) = ''John Doe''"
    and "guests (extractGuestInfo event) = 2"
    and "\<not> isPlaceholder (extractGuestInfo event)"
    using assms c n g by (simp_all add: extractGuestInfo_def)
qed

text \<open>
  Claim C2. Whenever the lower-cased summary contains one of the keywords "closed",
  "blocked", "unavailable", "not available" anywhere, whatever else the summary holds,
  the extractor returns the name "Blocked Period - Please Update", which contains
  "Blocked", the guest count 1 and the placeholder flag. A summary that is "closed" in any
  mix of cases is such a summary. The summary "John Doe - 2 guests" gives the name
  "John Doe", two guests and no placeholder flag.
\<close>

theorem closure_keywords_take_precedence:
  "(k \<in> set closureKeywords \<and> toLowerCase (summary event) = ps @ k @ ss \<longrightarrow>
      name (extractGuestInfo event) = ''Blocked Period - Please Update'' \<and>
      strIncludes (name (extractGuestInfo event)) ''Blocked'' \<and>
      guests (extractGuestInfo event) = 1 \<and>
      isPlaceholder (extractGuestInfo event)) \<and>
   (toLowerCase (summary event) = ''closed'' \<longrightarrow>
      isPlaceholder (extractGuestInfo event) \<and>
      strIncludes (name (extractGuestInfo event)) ''Blocked'') \<and>
   (summary event = ''John Doe - 2 guests'' \<longrightarrow>
      name (extractGuestInfo event) = ''John Doe'' \<and>
      guests (extractGuestInfo event) = 2 \<and>
      \<not> isPlaceholder (extractGuestInfo event))"
proof (intro conjI impI)
  assume a: "k \<in> set closureKeywords \<and> toLowerCase (summary event) = ps @ k @ ss"
  then have c: "closureSummary (summary event) \<and> summary event \<noteq> []"
    using closureSummary_keyword by blast
  then show "name (extractGuestInfo event) = ''Blocked Period - Please Update''"
    and "guests (extractGuestInfo event) = 1"
    and "isPlaceholder (extractGuestInfo event)"
    by (simp_all add: extract_blocked)
  from c show "strIncludes (name (extractGuestInfo event)) ''Blocked''"
    by (simp add: extract_blocked blocked_label_includes)
next
  assume a: "toLowerCase (summary event) = ''closed''"
  have "''closed'' \<in> set closureKeywords" by (simp add: closureKeywords_def)
  moreover from a have "toLowerCase (summary event) = [] @ ''closed'' @ []" by simp
  ultimately have c: "closureSummary (summary event) \<and> summary event \<noteq> []"
    using closureSummary_keyword by blast
  then show "isPlaceholder (extractGuestInfo event)"
    by (simp add: extract_blocked)
  from c show "strIncludes (name (extractGuestInfo event)) ''Blocked''"
    by (simp add: extract_blocked blocked_label_includes)
next
  assume a: "summary event = ''John Doe - 2 guests''"
  then show "name (extractGuestInfo event) = ''John Doe''"
    and "guests (extractGuestInfo event) = 2"
    and "\<not> isPlaceholder (extractGuestInfo event)"
    by (simp_all add: extract_john_doe)
qed

theorem closure_keywords_take_precedence_witness:
  "''not available'' \<in> set closureKeywords \<and>
   toLowerCase (summary (summaryEvent ''John - NOT Available (2 guests)'')) = ''john - '' @ ''not available'' @ '' (2 guests)'' \<and>
   name (extractGuestInfo (summaryEvent ''John - NOT Available (2 guests)'')) = ''Blocked Period - Please Update'' \<and>
   guests (extractGuestInfo (summaryEvent ''John - NOT Available (2 guests)'')) = 1 \<and>
   isPlaceholder (extractGuestInfo (summaryEvent ''John - NOT Available (2 guests)'')) \<and>
   toLowerCase (summary (summaryEvent ''ClOsEd'')) = ''closed'' \<and>
   isPlaceholder (extractGuestInfo (summaryEvent ''ClOsEd'')) \<and>
   summary (summaryEvent ''John Doe - 2 guests'') = ''John Doe - 2 guests'' \<and>
   name (extractGuestInfo (summaryEvent ''John Doe - 2 guests'')) = ''John Doe'' \<and>
   guests (extractGuestInfo (summaryEvent ''John Doe - 2 guests'')) = 2"
proof -
  have k: "''not available'' \<in> set closureKeywords" by (simp add: closureKeywords_def)
  have l: "toLowerCase (summary (summaryEvent ''John - NOT Available (2 guests)'')) =
           ''john - '' @ ''not available'' @ '' (2 guests)''"
    by (simp add: summaryEvent_def janeEvent_def char_class_defs)
  have c: "toLowerCase (summary (summaryEvent ''ClOsEd'')) = ''closed''"
    by (simp add: summaryEvent_def janeEvent_def char_class_defs)
  have j: "summary (summaryEvent ''John Doe - 2 guests'') = ''John Doe - 2 guests''"
    by (simp add: summaryEvent_def janeEvent_def)
  from closure_keywords_take_precedence
         [of "''not available''" "summaryEvent ''John - NOT Available (2 guests)''"
             "''john - ''" "'' (2 guests)''"]
       closure_keywords_take_precedence [of k "summaryEvent ''ClOsEd''" ps ss]
       closure_keywords_take_precedence [of k "summaryEvent ''John Doe - 2 guests''" ps ss]
       k l c j
  show ?thesis by blast
qed













subsection \<open>The parser and the fetcher\<close>

lemma parseLoop_map_filter:
  "parseLoop comps events = events @ List.map_filter componentEvent comps"
proof (induction comps arbitrary: events)
  case Nil
  then show ?case by (simp add: List.map_filter_simps)
next
  case (Cons c comps)
  obtain key comp where c: "c = (key, comp)" by (cases c)
  show ?case
  proof (cases comp)
    case (VEVENT vevent)
    with c Cons show ?thesis
      by (cases "toCalendarEvent vevent") (simp_all add: List.map_filter_simps)
  next
    case (OtherComponent ty)
    with c Cons show ?thesis by (simp add: List.map_filter_simps)
  qed
qed

lemma toCalendarEvent_None_iff:
  "toCalendarEvent vevent = None \<longleftrightarrow>
     \<not> truthy (v_uid vevent) \<or> v_start vevent = None \<or> v_end vevent = None"
  by (cases "v_uid vevent"; cases "v_start vevent"; cases "v_end vevent")
     (simp_all add: toCalendarEvent_def)

lemma toCalendarEvent_Some:
  assumes "toCalendarEvent vevent = Some ev"
  shows "uid ev \<noteq> [] \<and> v_uid vevent = Some (uid ev) \<and> v_start vevent = Some (start ev) \<and>
         v_end vevent = Some (end ev) \<and> summary ev = orElse (v_summary vevent) ''Booking''"
  using assms
  by (cases "v_uid vevent"; cases "v_start vevent"; cases "v_end vevent")
     (auto simp: toCalendarEvent_def split: if_splits)

lemma orElse_nonempty: "d \<noteq> [] \<Longrightarrow> orElse x d \<noteq> []"
  by (cases x) auto

lemma parsed_event_origin:
  assumes "ev \<in> set (parseLoop comps [])"
  shows "\<exists>key vevent. (key, VEVENT vevent) \<in> set comps \<and> toCalendarEvent vevent = Some ev"
proof -
  from assms obtain c where c: "c \<in> set comps" "componentEvent c = Some ev"
    by (auto simp: parseLoop_map_filter List.map_filter_def)
  obtain key comp where kc: "c = (key, comp)" by (cases c)
  with c(2) obtain vevent where "comp = VEVENT vevent" "toCalendarEvent vevent = Some ev"
    by (cases comp) auto
  with c(1) kc show ?thesis by blast
qed

text \<open>
  Claim C7. When the library parser returns its entries, \<open>parseICalData\<close> returns a list
  and no error. An event entry whose uid is absent or empty, or whose start or end is
  absent, contributes nothing: the result is the result for the same entries without it,
  and when every other entry is a usable event the result has one event per other
  entry. Every event returned stems from an event entry of the parsed object, has that
  entry's uid, start and end, and its uid is not empty.
\<close>

theorem parser_skips_unusable_entries:
  "(ics text = Inr comps \<longrightarrow>
      parseICalData ics text = Inr (parseLoop comps [])) \<and>
   (\<not> truthy (v_uid vevent) \<or> v_start vevent = None \<or> v_end vevent = None \<longrightarrow>
      parseLoop (before @ [(key, VEVENT vevent)] @ after) [] = parseLoop (before @ after) [] \<and>
      ((\<forall>c \<in> set (before @ after). componentEvent c \<noteq> None) \<longrightarrow>
         length (parseLoop (before @ [(key, VEVENT vevent)] @ after) []) =
           length before + length after)) \<and>
   (ev \<in> set (parseLoop comps []) \<longrightarrow>
      uid ev \<noteq> [] \<and>
      (\<exists>k v. (k, VEVENT v) \<in> set comps \<and> v_uid v = Some (uid ev) \<and>
             v_start v = Some (start ev) \<and> v_end v = Some (end ev)))"
proof (intro conjI impI)
  assume "ics text = Inr comps"
  then show "parseICalData ics text = Inr (parseLoop comps [])"
    by (simp add: parseICalData_def)
next
  assume "\<not> truthy (v_uid vevent) \<or> v_start vevent = None \<or> v_end vevent = None"
  then have n: "toCalendarEvent vevent = None"
    by (simp add: toCalendarEvent_None_iff)
  then show eq: "parseLoop (before @ [(key, VEVENT vevent)] @ after) [] = parseLoop (before @ after) []"
    by (simp add: parseLoop_map_filter List.map_filter_def)
  assume all: "\<forall>c \<in> set (before @ after). componentEvent c \<noteq> None"
  then have "filter (\<lambda>c. componentEvent c \<noteq> None) (before @ after) = before @ after"
    by (simp only: filter_id_conv) 
  then have "length (parseLoop (before @ after) []) = length (before @ after)"
    unfolding parseLoop_map_filter List.map_filter_def by (simp del: filter_append)
  with eq show "length (parseLoop (before @ [(key, VEVENT vevent)] @ after) []) =
           length before + length after"
    by simp
next
  assume a: "ev \<in> set (parseLoop comps [])"
  then obtain k v where kv: "(k, VEVENT v) \<in> set comps" "toCalendarEvent v = Some ev"
    using parsed_event_origin by blast
  from toCalendarEvent_Some[OF kv(2)] show "uid ev \<noteq> []" by simp
  from toCalendarEvent_Some[OF kv(2)] kv(1)
  show "\<exists>k v. (k, VEVENT v) \<in> set comps \<and> v_uid v = Some (uid ev) \<and>
             v_start v = Some (start ev) \<and> v_end v = Some (end ev)"
    by blast
qed

theorem parser_skips_unusable_entries_witness:
  "threeEntries ''BEGIN:VCALENDAR'' =
     Inr ([(''abc123'', VEVENT bareVEvent)] @ [(''k2'', VEVENT noUidVEvent)] @
          [(''def456'', VEVENT secondVEvent)]) \<and>
   \<not> truthy (v_uid noUidVEvent) \<and>
   componentEvent (''abc123'', VEVENT bareVEvent) \<noteq> None \<and>
   componentEvent (''def456'', VEVENT secondVEvent) \<noteq> None \<and>
   (\<exists>events. parseICalData threeEntries ''BEGIN:VCALENDAR'' = Inr events \<and>
             length events = 2 \<and>
             events = parseLoop [(''abc123'', VEVENT bareVEvent), (''def456'', VEVENT secondVEvent)] [] \<and>
             map uid events = [''abc123'', ''def456''])"
proof -
  let ?comps = "[(''abc123'', VEVENT bareVEvent)] @ [(''k2'', VEVENT noUidVEvent)] @
          [(''def456'', VEVENT secondVEvent)]"
  have p: "threeEntries ''BEGIN:VCALENDAR'' = Inr ?comps"
    by (simp add: threeEntries_def)
  have u: "\<not> truthy (v_uid noUidVEvent)"
    by (simp add: noUidVEvent_def)
  have o1: "componentEvent (''abc123'', VEVENT bareVEvent) \<noteq> None"
    and o2: "componentEvent (''def456'', VEVENT secondVEvent) \<noteq> None"
    by (simp_all add: toCalendarEvent_def bareVEvent_def secondVEvent_def)
  then have o: "\<forall>c \<in> set ([(''abc123'', VEVENT bareVEvent)] @ [(''def456'', VEVENT secondVEvent)]).
      componentEvent c \<noteq> None"
    by simp
  have m: "map uid (parseLoop ([(''abc123'', VEVENT bareVEvent)] @ [(''def456'', VEVENT secondVEvent)]) [])
             = [''abc123'', ''def456'']"
    by (simp add: toCalendarEvent_def bareVEvent_def secondVEvent_def)
  note t = parser_skips_unusable_entries
             [of threeEntries "''BEGIN:VCALENDAR''" ?comps noUidVEvent
                 "[(''abc123'', VEVENT bareVEvent)]" "''k2''" "[(''def456'', VEVENT secondVEvent)]"]
  from t p have r: "parseICalData threeEntries ''BEGIN:VCALENDAR'' = Inr (parseLoop ?comps [])"
    by blast
  from t u have e: "parseLoop ?comps [] =
      parseLoop ([(''abc123'', VEVENT bareVEvent)] @ [(''def456'', VEVENT secondVEvent)]) []"
    by blast
  from t u o have l: "length (parseLoop ?comps []) =
      length [(''abc123'', VEVENT bareVEvent)] + length [(''def456'', VEVENT secondVEvent)]"
    by blast
  from p u o1 o2 r e l m show ?thesis by simp
qed

lemma summaryName_booking: "summaryName ''Booking'' = (''Booking'', False)"
  by (simp add: summaryName_def nameMatch_def nameTail_def char_class_defs literal_search)

lemma not_closure_booking: "\<not> closureSummary ''Booking''"
  by (simp add: closureSummary_def char_class_defs literal_search)

lemma please_update_not_generic: "x @ '' - Please Update'' \<noteq> ''Calendar Reservation''"
proof
  assume "x @ '' - Please Update'' = ''Calendar Reservation''"
  then have "last (x @ '' - Please Update'') = last ''Calendar Reservation''"
    by (rule arg_cong)
  then show False by simp
qed

lemma summaryName_cases:
  "snd (summaryName s) = False \<or> (\<exists>x. fst (summaryName s) = x @ '' - Please Update'')"
  by (auto simp: summaryName_def Let_def split: option.splits)

lemma generic_label_needs_empty_summary:
  assumes "summary ev \<noteq> []"
  shows "\<not> (name (extractGuestInfo ev) = ''Calendar Reservation'' \<and> isPlaceholder (extractGuestInfo ev))"
proof (cases "closureSummary (summary ev)")
  case True
  with assms show ?thesis by (simp add: extract_blocked(1))
next
  case False
  with assms have n: "name (extractGuestInfo ev) = fst (summaryName (summary ev))"
    and p: "isPlaceholder (extractGuestInfo ev) = snd (summaryName (summary ev))"
    by (simp_all add: extractGuestInfo_def)
  from summaryName_cases[of "summary ev"] show ?thesis
    unfolding n p using please_update_not_generic by auto
qed

text \<open>
  Claim C10. An event entry with a non-empty uid, a start and an end but no summary
  becomes an event with the summary "Booking", for which the extractor returns the name
  "Booking" without the placeholder flag. Every event the parser returns has a non-empty
  summary, so the extractor never answers it with the generic label
  "Calendar Reservation" and the placeholder flag, the result of its absent-summary branch.
\<close>

theorem missing_summary_becomes_booking:
  "(v_uid vevent = Some u \<and> u \<noteq> [] \<and> v_start vevent = Some s \<and> v_end vevent = Some e \<and>
    v_summary vevent = None \<longrightarrow>
      (\<exists>ev. toCalendarEvent vevent = Some ev \<and> uid ev = u \<and> summary ev = ''Booking'' \<and>
            name (extractGuestInfo ev) = ''Booking'' \<and> \<not> isPlaceholder (extractGuestInfo ev))) \<and>
   (parseICalData ics text = Inr events \<and> ev \<in> set events \<longrightarrow>
      summary ev \<noteq> [] \<and>
      \<not> (name (extractGuestInfo ev) = ''Calendar Reservation'' \<and> isPlaceholder (extractGuestInfo ev)))"
proof (intro conjI impI)
  assume a: "v_uid vevent = Some u \<and> u \<noteq> [] \<and> v_start vevent = Some s \<and> v_end vevent = Some e \<and>
    v_summary vevent = None"
  then obtain ev where ev: "toCalendarEvent vevent = Some ev" "uid ev = u" "summary ev = ''Booking''"
    by (simp add: toCalendarEvent_def)
  have "name (extractGuestInfo ev) = ''Booking''" "\<not> isPlaceholder (extractGuestInfo ev)"
    using ev(3) not_closure_booking summaryName_booking by (simp_all add: extractGuestInfo_def)
  with ev show "\<exists>ev. toCalendarEvent vevent = Some ev \<and> uid ev = u \<and> summary ev = ''Booking'' \<and>
            name (extractGuestInfo ev) = ''Booking'' \<and> \<not> isPlaceholder (extractGuestInfo ev)"
    by blast
next
  assume a: "parseICalData ics text = Inr events \<and> ev \<in> set events"
  then have "ev \<in> set (parseLoop (projr (ics text)) [])"
    by (auto simp: parseICalData_def split: sum.splits)
  then obtain k v where "toCalendarEvent v = Some ev"
    using parsed_event_origin by blast
  then have "summary ev = orElse (v_summary v) ''Booking''"
    using toCalendarEvent_Some by blast
  then show ne: "summary ev \<noteq> []"
    by (simp add: orElse_nonempty)
  then show "\<not> (name (extractGuestInfo ev) = ''Calendar Reservation'' \<and> isPlaceholder (extractGuestInfo ev))"
    by (rule generic_label_needs_empty_summary)
qed

theorem missing_summary_becomes_booking_witness:
  "v_uid bareVEvent = Some ''abc123'' \<and> v_summary bareVEvent = None \<and>
   (\<exists>ev. toCalendarEvent bareVEvent = Some ev \<and> summary ev = ''Booking'' \<and>
         name (extractGuestInfo ev) = ''Booking'' \<and> \<not> isPlaceholder (extractGuestInfo ev)) \<and>
   (\<exists>events ev. parseICalData threeEntries [] = Inr events \<and> ev \<in> set events \<and>
      summary ev \<noteq> [] \<and>
      \<not> (name (extractGuestInfo ev) = ''Calendar Reservation'' \<and> isPlaceholder (extractGuestInfo ev)))"
proof -
  have h: "v_uid bareVEvent = Some ''abc123'' \<and> ''abc123'' \<noteq> [] \<and>
           v_start bareVEvent = Some 1740787200000 \<and> v_end bareVEvent = Some 1741046400000 \<and>
           v_summary bareVEvent = None"
    by (simp add: bareVEvent_def)
  obtain events where p: "parseICalData threeEntries [] = Inr events" "events \<noteq> []"
    by (simp add: parseICalData_def threeEntries_def toCalendarEvent_def bareVEvent_def
          noUidVEvent_def secondVEvent_def)
  then obtain x where x: "x \<in> set events" by (cases events) auto
  note t = missing_summary_becomes_booking
            [of bareVEvent "''abc123''" 1740787200000 1741046400000 threeEntries "[]" events x]
  from t h have first: "\<exists>ev. toCalendarEvent bareVEvent = Some ev \<and> summary ev = ''Booking'' \<and>
         name (extractGuestInfo ev) = ''Booking'' \<and> \<not> isPlaceholder (extractGuestInfo ev)"
    by blast
  from t p(1) x have second: "summary x \<noteq> [] \<and>
          \<not> (name (extractGuestInfo x) = ''Calendar Reservation'' \<and> isPlaceholder (extractGuestInfo x))"
    by blast
  from h p(1) x first second show ?thesis by blast
qed

subsection \<open>The entry points\<close>

text \<open>
  Claim C8. When the stored settings of the property disable the sync or hold no URL (a
  null or empty \<open>ical_url\<close>), \<open>syncPropertyCalendar\<close> returns a result with
  \<open>success = false\<close>, the single error "Calendar sync is not enabled for this property"
  and zero counters, and the world it returns is the world it was given: no request has
  been sent and no booking written.
\<close>

theorem disabled_sync_is_gated:
  assumes "findProperties pid (properties w) = property # others"
      and "\<not> sync_enabled property \<or> ical_url property = None \<or> ical_url property = Some []"
  shows "\<exists>result. syncPropertyCalendar env clock pid w = (result, w) \<and>
           \<not> success result \<and>
           errors result = [''Calendar sync is not enabled for this property''] \<and>
           bookingsCreated result = 0 \<and> bookingsUpdated result = 0 \<and> bookingsSkipped result = 0"
proof -
  from assms(2) have "\<not> sync_enabled property \<or> \<not> truthy (ical_url property)"
    by (cases "ical_url property") auto
  with assms(1) show ?thesis
    by (auto simp: syncPropertyCalendar_def emptyResult_def)
qed

theorem disabled_sync_is_gated_witness:
  "findProperties ''p2'' (properties disabledWorld) = [disabledProperty] \<and>
   \<not> sync_enabled disabledProperty \<and>
   snd (syncPropertyCalendar htmlEnv (\<lambda>k. exampleClock) ''p2'' disabledWorld) = disabledWorld \<and>
   requests disabledWorld = [] \<and>
   \<not> success (fst (syncPropertyCalendar htmlEnv (\<lambda>k. exampleClock) ''p2'' disabledWorld))"
proof -
  have f: "findProperties ''p2'' (properties disabledWorld) = disabledProperty # []"
    by (simp add: findProperties_def disabledWorld_def disabledProperty_def exampleProperty_def)
  have d: "\<not> sync_enabled disabledProperty"
    by (simp add: disabledProperty_def)
  from d have d': "\<not> sync_enabled disabledProperty \<or> ical_url disabledProperty = None \<or>
                  ical_url disabledProperty = Some []" by simp
  have r: "requests disabledWorld = []" by (simp add: disabledWorld_def)
  from disabled_sync_is_gated [OF f d', of htmlEnv "\<lambda>k. exampleClock"] f d r
  show ?thesis by auto
qed

text \<open>
  Claim C9. The claim asks for an error when the body of the response does not look like
  calendar data. The fetcher does not look at the body, although the route
  \<open>POST /test-url\<close> of the same repository does and rejects a body without
  "BEGIN:VCALENDAR". At a server that answers with status 200 and a page of HTML, a body
  that the route's check rejects, \<open>downloadICalData\<close> returns the empty list of events
  and no error, and the sync of the property reports success with nothing created.
\<close>

theorem html_page_syncs_as_empty_calendar:
  "axiosGet htmlEnv ''https://example.org/cal.ics'' = Inr (200, ''<html>Not a calendar</html>'') \<and>
   \<not> looksLikeICal ''<html>Not a calendar</html>'' \<and>
   downloadICalData htmlEnv ''https://example.org/cal.ics'' = Inr [] \<and>
   success (fst (syncPropertyCalendarWithUrl htmlEnv (\<lambda>k. exampleClock) ''p1''
                   ''https://example.org/cal.ics'' emptyWorld)) \<and>
   errors (fst (syncPropertyCalendarWithUrl htmlEnv (\<lambda>k. exampleClock) ''p1''
                  ''https://example.org/cal.ics'' emptyWorld)) = [] \<and>
   bookingsCreated (fst (syncPropertyCalendarWithUrl htmlEnv (\<lambda>k. exampleClock) ''p1''
                           ''https://example.org/cal.ics'' emptyWorld)) = 0"
proof -
  have a: "axiosGet htmlEnv ''https://example.org/cal.ics'' = Inr (200, ''<html>Not a calendar</html>'')"
    by (simp add: htmlEnv_def)
  have l: "\<not> looksLikeICal ''<html>Not a calendar</html>''"
    by (simp add: looksLikeICal_def literal_search)
  have d: "downloadICalData htmlEnv ''https://example.org/cal.ics'' = Inr []"
    by (simp add: downloadICalData_def parseICalData_def htmlEnv_def)
  have f: "findProperties ''p1'' (properties emptyWorld) = [exampleProperty]"
    by (simp add: findProperties_def emptyWorld_def exampleProperty_def)
  from a l d f show ?thesis
    by (simp add: syncPropertyCalendarWithUrl_def finishResult_def emptyResult_def Let_def)
qed

subsection \<open>Two passes over the same calendar\<close>










































end
